theory Spec2Isabelle
  imports Main
begin

section \<open>Data model of \<^verbatim>\<open>firedrake_ts/snes_solver.py\<close>\<close>

text \<open>
  The numeric contents of a distributed vector. This layer only copies vectors
  (\<^verbatim>\<open>u.copy(work)\<close>, \<^verbatim>\<open>work.copy(u)\<close>) and hands them to collaborators, so the
  entries are kept abstract as integers.
\<close>

type_synonym vec = "int list"

text \<open>
  A function space, as far as this file reads it: \<^verbatim>\<open>V.dm\<close> (the discretization
  context) and \<^verbatim>\<open>V.mesh()._comm\<close> (the communicator). Contexts and communicators
  are identified by numbers.
\<close>

record function_space =
  fs_id :: nat
  dm :: nat
  mesh_comm :: nat

text \<open>A coefficient of a form: \<^verbatim>\<open>c.function_space()\<close> is all that is read of it.\<close>

record coefficient =
  c_id :: nat
  c_function_space :: function_space

text \<open>
  A symbolic form (a \<^verbatim>\<open>ufl.BaseForm\<close> or a Slate tensor): \<^verbatim>\<open>form.arguments()\<close>
  and \<^verbatim>\<open>form.coefficients()\<close>.
\<close>

record form =
  arguments :: "nat list"
  coefficients :: "coefficient list"

text \<open>
  A Python value passed where a form is expected. \<^verbatim>\<open>isinstance(F, (ufl.BaseForm,
  slate.slate.TensorBase))\<close> holds of the first two constructors. Any other value
  carries its type name (\<^verbatim>\<open>type(F).__name__\<close>) and its truth value (read by
  \<^verbatim>\<open>J or ...\<close>); forms define neither \<^verbatim>\<open>__bool__\<close> nor \<^verbatim>\<open>__len__\<close>, so they are
  true.
\<close>

datatype formarg = BaseForm form | TensorBase form | NotForm string bool

fun isinstance_form :: "formarg \<Rightarrow> bool" where
  "isinstance_form (BaseForm f) = True"
| "isinstance_form (TensorBase f) = True"
| "isinstance_form (NotForm t b) = False"

fun truthy :: "formarg \<Rightarrow> bool" where
  "truthy (BaseForm f) = True"
| "truthy (TensorBase f) = True"
| "truthy (NotForm t b) = b"

text \<open>A \<^verbatim>\<open>firedrake.function.Function\<close>: its function space and its data.\<close>

record func =
  f_function_space :: function_space
  dat :: vec

text \<open>The value passed as \<^verbatim>\<open>u\<close>: a \<^verbatim>\<open>Function\<close>, or something else with a type name.\<close>

datatype uarg = IsFunction func | NotFunction string

text \<open>
  A boundary condition after \<^verbatim>\<open>solving._extract_bcs\<close>: a \<^verbatim>\<open>DirichletBC\<close>, or a
  condition given by an equation, which has an \<^verbatim>\<open>is_linear\<close> flag and its own
  Dirichlet conditions (\<^verbatim>\<open>bc.dirichlet_bcs()\<close>), named by numbers.
\<close>

datatype bc = DirichletBC nat | EquationBC bool "nat list"

fun isinstance_DirichletBC :: "bc \<Rightarrow> bool" where
  "isinstance_DirichletBC (DirichletBC n) = True"
| "isinstance_DirichletBC (EquationBC l ds) = False"

text \<open>
  \<^verbatim>\<open>bc.is_linear\<close>. The source reads it of conditions that are not
  \<^verbatim>\<open>DirichletBC\<close> only; the first equation is never reached from this file.
\<close>

fun is_linear :: "bc \<Rightarrow> bool" where
  "is_linear (DirichletBC n) = False"
| "is_linear (EquationBC l ds) = l"

text \<open>
  Every \<^verbatim>\<open>raise\<close> of the file is a constructor; a type error keeps the type name
  of its message. \<^verbatim>\<open>ExternalError\<close> is an exception raised inside the symbolic
  differentiation, \<^verbatim>\<open>PETScError\<close> one raised by the engine (with its error code),
  \<^verbatim>\<open>AttributeError\<close> the failure of an attribute access (type name, attribute).
\<close>

datatype error =
    TypeError_residual string
  | ValueError_residual
  | TypeError_Jacobian string
  | ValueError_Jacobian
  | TypeError_preconditioner string
  | ValueError_preconditioner
  | TypeError_form_style
  | TypeError_solution string
  | AttributeError string string
  | ConvergenceError int
  | PETScError int
  | ExternalError string

text \<open>
  The error taxonomy of the specification (section 7), by raise site. An error raised by
  the engine is of the configuration kind, the only kind the specification has for one;
  an attribute error and an exception of the symbolic differentiation have no kind there.
\<close>

datatype error_kind =
  TypeKind | ArityKind | StyleMismatchKind | ConfigurationKind | DivergenceKind | OtherKind

fun kind :: "error \<Rightarrow> error_kind" where
  "kind (TypeError_residual t) = TypeKind"
| "kind ValueError_residual = ArityKind"
| "kind (TypeError_Jacobian t) = TypeKind"
| "kind ValueError_Jacobian = ArityKind"
| "kind (TypeError_preconditioner t) = TypeKind"
| "kind ValueError_preconditioner = ArityKind"
| "kind TypeError_form_style = StyleMismatchKind"
| "kind (TypeError_solution t) = TypeKind"
| "kind (AttributeError t a) = OtherKind"
| "kind (ConvergenceError r) = DivergenceKind"
| "kind (PETScError c) = ConfigurationKind"
| "kind (ExternalError m) = OtherKind"

section \<open>Argument checks\<close>

text \<open>\<^verbatim>\<open>F.arguments()\<close> of a value that passed the \<^verbatim>\<open>isinstance\<close> check.\<close>

fun form_of :: "formarg \<Rightarrow> form" where
  "form_of (BaseForm f) = f"
| "form_of (TensorBase f) = f"
| "form_of (NotForm t b) = \<lparr>arguments = [], coefficients = []\<rparr>"

fun type_name :: "formarg \<Rightarrow> string" where
  "type_name (BaseForm f) = ''BaseForm''"
| "type_name (TensorBase f) = ''TensorBase''"
| "type_name (NotForm t b) = t"

text \<open>\<^verbatim>\<open>len(F.arguments())\<close>\<close>

definition len_arguments :: "formarg \<Rightarrow> nat" where
  "len_arguments F = length (arguments (form_of F))"

text \<open>
  \<^verbatim>\<open>check_pde_args(F, J, Jp)\<close>, the six checks in the order of the source. Each
  \<^verbatim>\<open>len(X.arguments())\<close> is evaluated only after the \<^verbatim>\<open>isinstance\<close> check of the same
  value has passed.
\<close>

definition check_pde_args :: "formarg \<Rightarrow> formarg \<Rightarrow> formarg option \<Rightarrow> error + unit" where
  "check_pde_args F J Jp =
    (if \<not> isinstance_form F then Inl (TypeError_residual (type_name F))
     else if len_arguments F \<noteq> 1 then Inl ValueError_residual
     else if \<not> isinstance_form J then Inl (TypeError_Jacobian (type_name J))
     else if len_arguments J \<noteq> 2 then Inl ValueError_Jacobian
     else (case Jp of
        None \<Rightarrow> Inr ()
      | Some P \<Rightarrow>
          if \<not> isinstance_form P then Inl (TypeError_preconditioner (type_name P))
          else if len_arguments P \<noteq> 2 then Inl ValueError_preconditioner
          else Inr ()))"

text \<open>
  \<^verbatim>\<open>is_form_consistent(is_linear, bcs)\<close>. In Python \<^verbatim>\<open>not a == b\<close> is
  \<^verbatim>\<open>not (a == b)\<close> and \<^verbatim>\<open>or\<close> binds weaker than \<^verbatim>\<open>not\<close>, so the condition is
  \<^verbatim>\<open>not ((is_linear == all(...)) or (not (is_linear == all(not ...))))\<close>.
\<close>

definition is_form_consistent :: "bool \<Rightarrow> bc list \<Rightarrow> error + unit" where
  "is_form_consistent lin bcs =
    (if \<not> ((lin = list_all (\<lambda>b. is_linear b) (filter (\<lambda>b. \<not> isinstance_DirichletBC b) bcs))
            \<or> \<not> (lin = list_all (\<lambda>b. \<not> is_linear b) (filter (\<lambda>b. \<not> isinstance_DirichletBC b) bcs)))
     then Inl TypeError_form_style
     else Inr ())"

section \<open>\<^verbatim>\<open>NonlinearVariationalProblem.__init__\<close>\<close>

record problem =
  problem_bcs :: "bc list"
  problem_is_linear :: bool
  Jp_eq_J :: bool
  problem_u :: func
  problem_F :: formarg
  problem_Jp :: "formarg option"
  problem_J :: formarg
  form_compiler_parameters :: "(string \<times> string) list option"
  constant_jacobian :: bool

text \<open>
  Modelled from the spec: \<^verbatim>\<open>solving._extract_bcs\<close> is firedrake's, not part of this
  file; the boundary conditions are an ordered collection, empty when the argument is
  omitted.
\<close>

fun extract_bcs :: "bc list option \<Rightarrow> bc list" where
  "extract_bcs None = []"
| "extract_bcs (Some bs) = bs"

text \<open>
  \<^verbatim>\<open>J or ufl_expr.derivative(F, u)\<close>. The symbolic differentiation is firedrake's and
  is a parameter \<open>derivative\<close> of the model: it returns the derived form, or \<open>Inl\<close> of
  the message of the exception it raised. It is called only when \<^verbatim>\<open>J\<close> is \<^verbatim>\<open>None\<close> or
  another false value.
\<close>

definition J_or_derivative ::
  "(formarg \<Rightarrow> func \<Rightarrow> string + formarg) \<Rightarrow> formarg \<Rightarrow> func \<Rightarrow> formarg option \<Rightarrow> error + formarg" where
  "J_or_derivative derivative F u J =
    (case J of
       Some j \<Rightarrow>
         if truthy j then Inr j
         else (case derivative F u of Inl m \<Rightarrow> Inl (ExternalError m) | Inr d \<Rightarrow> Inr d)
     | None \<Rightarrow> (case derivative F u of Inl m \<Rightarrow> Inl (ExternalError m) | Inr d \<Rightarrow> Inr d))"

definition problem_init ::
  "(formarg \<Rightarrow> func \<Rightarrow> string + formarg) \<Rightarrow> formarg \<Rightarrow> uarg \<Rightarrow> bc list option \<Rightarrow>
   formarg option \<Rightarrow> formarg option \<Rightarrow> (string \<times> string) list option \<Rightarrow> bool \<Rightarrow> error + problem" where
  "problem_init derivative F u bcs J Jp fcp lin =
    (case is_form_consistent lin (extract_bcs bcs) of
       Inl e \<Rightarrow> Inl e
     | Inr _ \<Rightarrow>
        (case u of
           NotFunction t \<Rightarrow> Inl (TypeError_solution t)
         | IsFunction uf \<Rightarrow>
            (case J_or_derivative derivative F uf J of
               Inl e \<Rightarrow> Inl e
             | Inr j \<Rightarrow>
                (case check_pde_args F j Jp of
                   Inl e \<Rightarrow> Inl e
                 | Inr _ \<Rightarrow>
                     Inr \<lparr>problem_bcs = extract_bcs bcs,
                          problem_is_linear = lin,
                          Jp_eq_J = (Jp = None),
                          problem_u = uf,
                          problem_F = F,
                          problem_Jp = Jp,
                          problem_J = j,
                          form_compiler_parameters = fcp,
                          constant_jacobian = False\<rparr>))))"

section \<open>\<^verbatim>\<open>NonlinearVariationalSolver\<close>\<close>

text \<open>
  What \<^verbatim>\<open>solve\<close> does that a caller or a collaborator can observe, in the order it is
  done: calls on the engine and the contexts entered and left, and the statements of
  \<^verbatim>\<open>solve\<close> that change the solver (\<^verbatim>\<open>u.copy(work)\<close>, \<^verbatim>\<open>work.copy(u)\<close>,
  \<^verbatim>\<open>self._setup = True\<close>).
\<close>

datatype event =
    SetFunction nat
  | SetJacobian nat
  | ApplyBC nat
  | SetVariableBounds vec vec
  | CopyToWork
  | EnterOptions
  | AttachDM nat
  | EnterTransfer nat
  | SnesSolve
  | ExitTransfer nat
  | DetachDM nat
  | ExitOptions
  | CopyBack
  | MarkSetup
  | CheckConvergence
  | GarbageCleanup nat

text \<open>
  The solver object with the state of its engine handle \<^verbatim>\<open>self.snes\<close>: the context
  whose callbacks are registered, the bounds, the discretization context
  (\<^verbatim>\<open>snes.getDM()\<close>) and the converged reason. \<open>trace\<close> records the events so far.
\<close>

record solver =
  solver_problem :: problem
  ctx :: nat
  work :: vec
  transfer_operators :: "nat list"
  setup_flag :: bool
  snes_dm :: nat
  snes_function :: "nat option"
  snes_jacobian :: "nat option"
  snes_bounds :: "(vec \<times> vec) option"
  snes_reason :: int
  trace :: "event list"

text \<open>
  The collaborators of \<^verbatim>\<open>solve\<close>, parameters of the model: the engine's collective
  solve (from the engine's state and the work vector to the last iterate and the
  converged reason, or \<open>Inl\<close> of the error code it raises), the engine's
  variable-bounds interface (\<open>Some\<close> of the error code it raises), and
  \<^verbatim>\<open>dbc.apply\<close> of each Dirichlet condition.
\<close>

record engine =
  snes_solve :: "solver \<Rightarrow> int + (vec \<times> int)"
  setVariableBounds :: "solver \<Rightarrow> vec \<Rightarrow> vec \<Rightarrow> int option"
  bc_apply :: "nat \<Rightarrow> vec \<Rightarrow> vec"

definition emit :: "event list \<Rightarrow> solver \<Rightarrow> solver" where
  "emit evs s = s\<lparr>trace := trace s @ evs\<rparr>"

text \<open>
  The part of \<^verbatim>\<open>__init__\<close> that \<^verbatim>\<open>solve\<close> depends on: \<^verbatim>\<open>snes.setDM(problem.dm)\<close>
  with \<^verbatim>\<open>problem.dm = u.function_space().dm\<close>, the first registration of the
  callbacks, no transfer operators, \<^verbatim>\<open>_setup = False\<close>. The contents of the
  duplicated work vector and the identity of the context are parameters.
\<close>

definition solver_init :: "nat \<Rightarrow> vec \<Rightarrow> problem \<Rightarrow> solver" where
  "solver_init c w p =
    \<lparr>solver_problem = p, ctx = c, work = w, transfer_operators = [], setup_flag = False,
     snes_dm = dm (f_function_space (problem_u p)),
     snes_function = Some c, snes_jacobian = Some c, snes_bounds = None,
     snes_reason = 0, trace = []\<rparr>"

text \<open>
  Modelled from the spec: \<^verbatim>\<open>_SNESContext.set_function\<close> and \<^verbatim>\<open>set_jacobian\<close> are
  firedrake's; each registers the context's evaluation entry point against the engine
  (\<^verbatim>\<open>setResidualCallback\<close>, \<^verbatim>\<open>setJacobianCallback\<close>).
\<close>

definition set_function :: "solver \<Rightarrow> solver" where
  "set_function s = emit [SetFunction (ctx s)] (s\<lparr>snes_function := Some (ctx s)\<rparr>)"

definition set_jacobian :: "solver \<Rightarrow> solver" where
  "set_jacobian s = emit [SetJacobian (ctx s)] (s\<lparr>snes_jacobian := Some (ctx s)\<rparr>)"

text \<open>
  Modelled from the spec: \<^verbatim>\<open>utils.unique\<close> is firedrake's; it deduplicates, keeping
  the order of first occurrence.
\<close>

definition unique :: "'a list \<Rightarrow> 'a list" where
  "unique xs = foldl (\<lambda>acc x. if x \<in> set acc then acc else acc @ [x]) [] xs"

text \<open>\<^verbatim>\<open>form.coefficients()\<close>; a value that is no form has no such attribute.\<close>

fun form_coefficients :: "formarg \<Rightarrow> error + coefficient list" where
  "form_coefficients (BaseForm f) = Inr (coefficients f)"
| "form_coefficients (TensorBase f) = Inr (coefficients f)"
| "form_coefficients (NotForm t b) = Inl (AttributeError t ''coefficients'')"

text \<open>
  \<^verbatim>\<open>chain.from_iterable(form.coefficients() for form in forms if form is not None)\<close>
  over \<^verbatim>\<open>(problem.F, problem.J, problem.Jp)\<close>, in this order.
\<close>

definition chained_coefficients :: "problem \<Rightarrow> error + coefficient list" where
  "chained_coefficients p =
    (case form_coefficients (problem_F p) of
       Inl e \<Rightarrow> Inl e
     | Inr cF \<Rightarrow>
        (case form_coefficients (problem_J p) of
           Inl e \<Rightarrow> Inl e
         | Inr cJ \<Rightarrow>
            (case problem_Jp p of
               None \<Rightarrow> Inr (cF @ cJ)
             | Some P \<Rightarrow>
                (case form_coefficients P of
                   Inl e \<Rightarrow> Inl e
                 | Inr cP \<Rightarrow> Inr (cF @ cJ @ cP)))))"

text \<open>
  \<^verbatim>\<open>problem_dms\<close>: the contexts of the deduplicated function spaces of the
  deduplicated coefficients, without \<^verbatim>\<open>solution_dm = self.snes.getDM()\<close>, and then
  \<^verbatim>\<open>solution_dm\<close> appended.
\<close>

definition problem_dms :: "solver \<Rightarrow> error + nat list" where
  "problem_dms s =
    (case chained_coefficients (solver_problem s) of
       Inl e \<Rightarrow> Inl e
     | Inr cs \<Rightarrow>
         Inr (map dm (filter (\<lambda>V. dm V \<noteq> snes_dm s)
                        (unique (map c_function_space (unique cs))))
              @ [snes_dm s]))"

text \<open>\<^verbatim>\<open>problem.dirichlet_bcs()\<close>: the Dirichlet conditions of every condition, in order.\<close>

fun dirichlet_bcs_of :: "bc \<Rightarrow> nat list" where
  "dirichlet_bcs_of (DirichletBC n) = [n]"
| "dirichlet_bcs_of (EquationBC l ds) = ds"

definition dirichlet_bcs :: "problem \<Rightarrow> nat list" where
  "dirichlet_bcs p = concat (map dirichlet_bcs_of (problem_bcs p))"

definition u_dat :: "solver \<Rightarrow> vec" where
  "u_dat s = dat (problem_u (solver_problem s))"

definition set_u_dat :: "vec \<Rightarrow> solver \<Rightarrow> solver" where
  "set_u_dat v s =
     s\<lparr>solver_problem := (solver_problem s)\<lparr>problem_u := (problem_u (solver_problem s))\<lparr>dat := v\<rparr>\<rparr>\<rparr>"

text \<open>\<^verbatim>\<open>for dbc in problem.dirichlet_bcs(): dbc.apply(problem.u)\<close>\<close>

fun apply_dirichlet_bcs :: "engine \<Rightarrow> nat list \<Rightarrow> solver \<Rightarrow> solver" where
  "apply_dirichlet_bcs eng [] s = s"
| "apply_dirichlet_bcs eng (d # ds) s =
     apply_dirichlet_bcs eng ds (emit [ApplyBC d] (set_u_dat (bc_apply eng d (u_dat s)) s))"

text \<open>
  A value passed as a bound: a \<^verbatim>\<open>Function\<close> or a \<^verbatim>\<open>Vector\<close> (both have \<^verbatim>\<open>.dat\<close>), or
  something else, of which \<^verbatim>\<open>lower.dat\<close> raises \<^verbatim>\<open>AttributeError\<close>.
\<close>

datatype boundarg = BoundFunction vec | BoundVector vec | NotField string

fun vec_ro :: "boundarg \<Rightarrow> error + vec" where
  "vec_ro (BoundFunction v) = Inr v"
| "vec_ro (BoundVector v) = Inr v"
| "vec_ro (NotField t) = Inl (AttributeError t ''dat'')"

text \<open>
  \<^verbatim>\<open>if bounds is not None: lower, upper = bounds; with lower.dat.vec_ro as lb,
  upper.dat.vec_ro as ub: self.snes.setVariableBounds(lb, ub)\<close>. An error of the engine
  is not caught.
\<close>

definition set_bounds ::
  "engine \<Rightarrow> (boundarg \<times> boundarg) option \<Rightarrow> solver \<Rightarrow> (error + unit) \<times> solver" where
  "set_bounds eng bounds s =
    (case bounds of
       None \<Rightarrow> (Inr (), s)
     | Some (lower, upper) \<Rightarrow>
        (case vec_ro lower of
           Inl e \<Rightarrow> (Inl e, s)
         | Inr lb \<Rightarrow>
            (case vec_ro upper of
               Inl e \<Rightarrow> (Inl e, s)
             | Inr ub \<Rightarrow>
                (case setVariableBounds eng s lb ub of
                   Some c \<Rightarrow> (Inl (PETScError c), emit [SetVariableBounds lb ub] s)
                 | None \<Rightarrow>
                     (Inr (), emit [SetVariableBounds lb ub] (s\<lparr>snes_bounds := Some (lb, ub)\<rparr>))))))"

text \<open>
  The \<^verbatim>\<open>ExitStack\<close>: the options scope, one \<^verbatim>\<open>dmhooks.add_hooks\<close> scope for each
  context of \<^verbatim>\<open>problem_dms\<close>, the transfer operators; left in reverse order.
\<close>

definition enter_contexts :: "nat list \<Rightarrow> solver \<Rightarrow> solver" where
  "enter_contexts dms s =
     emit ([EnterOptions] @ map AttachDM dms @ map EnterTransfer (transfer_operators s)) s"

definition exit_contexts :: "nat list \<Rightarrow> solver \<Rightarrow> solver" where
  "exit_contexts dms s =
     emit (map ExitTransfer (rev (transfer_operators s)) @ map DetachDM (rev dms) @ [ExitOptions]) s"

text \<open>
  Modelled from the spec: \<^verbatim>\<open>solving_utils.check_snes_convergence\<close> is firedrake's; it
  queries the engine's termination reason and fails with the divergence error carrying
  the reason code if the solve did not converge. The engine's diverged reasons are the
  negative codes.
\<close>

definition check_snes_convergence :: "solver \<Rightarrow> error + unit" where
  "check_snes_convergence s =
     (if snes_reason s < 0 then Inl (ConvergenceError (snes_reason s)) else Inr ())"

definition garbage_cleanup :: "solver \<Rightarrow> solver" where
  "garbage_cleanup s =
     emit [GarbageCleanup (mesh_comm (f_function_space (problem_u (solver_problem s))))] s"

text \<open>
  \<^verbatim>\<open>NonlinearVariationalSolver.solve(bounds)\<close>, first part: everything up to and
  including the entering of the contexts of the \<^verbatim>\<open>ExitStack\<close>. The result is the
  exception raised, or the contexts \<^verbatim>\<open>problem_dms\<close>, together with the solver at that
  point: what was changed before an exception stays changed.
\<close>

definition stage ::
  "engine \<Rightarrow> (boundarg \<times> boundarg) option \<Rightarrow> solver \<Rightarrow> (error + nat list) \<times> solver" where
  "stage eng bounds s0 =
    (let s1 = set_jacobian (set_function s0) in
     case problem_dms s1 of
       Inl e \<Rightarrow> (Inl e, s1)
     | Inr dms \<Rightarrow>
        (let s2 = apply_dirichlet_bcs eng (dirichlet_bcs (solver_problem s1)) s1 in
         case set_bounds eng bounds s2 of
           (Inl e, s3) \<Rightarrow> (Inl e, s3)
         | (Inr _, s3) \<Rightarrow>
            (let s4 = emit [CopyToWork] (s3\<lparr>work := u_dat s3\<rparr>) in
             (Inr dms, enter_contexts dms s4))))"

text \<open>
  \<^verbatim>\<open>solve\<close>, whole: the engine's collective solve on the work vector inside the
  contexts, which are left whether it returns or raises; then the copy back, the flag,
  the convergence check and the cleanup.
\<close>

definition solve ::
  "engine \<Rightarrow> (boundarg \<times> boundarg) option \<Rightarrow> solver \<Rightarrow> (error + unit) \<times> solver" where
  "solve eng bounds s0 =
    (case stage eng bounds s0 of
       (Inl e, s) \<Rightarrow> (Inl e, s)
     | (Inr dms, s5) \<Rightarrow>
        (case snes_solve eng s5 of
           Inl c \<Rightarrow> (Inl (PETScError c), exit_contexts dms (emit [SnesSolve] s5))
         | Inr (w, r) \<Rightarrow>
            (let s6 = exit_contexts dms (emit [SnesSolve] (s5\<lparr>work := w, snes_reason := r\<rparr>));
                 s7 = emit [CopyBack] (set_u_dat (work s6) s6);
                 s8 = emit [MarkSetup] (s7\<lparr>setup_flag := True\<rparr>);
                 s9 = emit [CheckConvergence] s8 in
             case check_snes_convergence s9 of
               Inl e \<Rightarrow> (Inl e, s9)
             | Inr _ \<Rightarrow> (Inr (), garbage_cleanup s9))))"

text \<open>Kinds of events, to select them from a trace.\<close>

fun is_rebind :: "event \<Rightarrow> bool" where
  "is_rebind (SetFunction c) = True"
| "is_rebind (SetJacobian c) = True"
| "is_rebind ev = False"

fun is_AttachDM :: "event \<Rightarrow> bool" where
  "is_AttachDM (AttachDM d) = True"
| "is_AttachDM ev = False"

fun is_GarbageCleanup :: "event \<Rightarrow> bool" where
  "is_GarbageCleanup (GarbageCleanup c) = True"
| "is_GarbageCleanup ev = False"

text \<open>The events of one call: the trace after it, without the trace before it.\<close>

definition events :: "engine \<Rightarrow> (boundarg \<times> boundarg) option \<Rightarrow> solver \<Rightarrow> event list" where
  "events eng bounds s = drop (length (trace s)) (trace (snd (solve eng bounds s)))"

section \<open>Concrete inputs\<close>

text \<open>Small inputs on which the theorems below are evaluated.\<close>

definition linear_form :: formarg where
  "linear_form = BaseForm \<lparr>arguments = [0], coefficients = []\<rparr>"

definition bilinear_form :: formarg where
  "bilinear_form = BaseForm \<lparr>arguments = [0, 1], coefficients = []\<rparr>"

definition u_example :: func where
  "u_example = \<lparr>f_function_space = \<lparr>fs_id = 0, dm = 0, mesh_comm = 7\<rparr>, dat = [1]\<rparr>"

definition derivative_example :: "formarg \<Rightarrow> func \<Rightarrow> string + formarg" where
  "derivative_example F u = Inr bilinear_form"

definition problem_example :: problem where
  "problem_example =
     \<lparr>problem_bcs = [], problem_is_linear = False, Jp_eq_J = True, problem_u = u_example,
      problem_F = linear_form, problem_Jp = None, problem_J = bilinear_form,
      form_compiler_parameters = None, constant_jacobian = False\<rparr>"

text \<open>
  A problem with one Dirichlet condition whose residual has three coefficients: one on
  the function space of the unknown (context 0) and the same coefficient on another
  space (context 5) twice.
\<close>

definition problem_coefficients :: problem where
  "problem_coefficients =
     problem_example\<lparr>problem_bcs := [DirichletBC 3], problem_F := BaseForm \<lparr>arguments = [0], coefficients =
        [\<lparr>c_id = 1, c_function_space = \<lparr>fs_id = 0, dm = 0, mesh_comm = 7\<rparr>\<rparr>,
         \<lparr>c_id = 2, c_function_space = \<lparr>fs_id = 1, dm = 5, mesh_comm = 7\<rparr>\<rparr>,
         \<lparr>c_id = 2, c_function_space = \<lparr>fs_id = 1, dm = 5, mesh_comm = 7\<rparr>\<rparr>]\<rparr>\<rparr>"

definition solver_example :: solver where
  "solver_example = solver_init 1 [0] problem_coefficients"

text \<open>
  Two engines: one that converges (reason 2) and one that diverges (reason -3), both
  leaving the last iterate \<open>[2]\<close>; one whose variant has no variable bounds (error 73).
\<close>

definition engine_converging :: engine where
  "engine_converging =
     \<lparr>snes_solve = (\<lambda>s. Inr ([2], 2)), setVariableBounds = (\<lambda>s lb ub. None),
      bc_apply = (\<lambda>d v. v)\<rparr>"

definition engine_diverging :: engine where
  "engine_diverging =
     \<lparr>snes_solve = (\<lambda>s. Inr ([2], - 3)), setVariableBounds = (\<lambda>s lb ub. None),
      bc_apply = (\<lambda>d v. v)\<rparr>"

definition engine_no_bounds :: engine where
  "engine_no_bounds =
     \<lparr>snes_solve = (\<lambda>s. Inr ([2], 2)), setVariableBounds = (\<lambda>s lb ub. Some 73),
      bc_apply = (\<lambda>d v. v)\<rparr>"

text \<open>
  A problem whose three forms all have coefficients: the residual one on the space of the
  unknown (context 0) and one on context 5, the Jacobian the latter again and one on
  context 6, the preconditioner one on context 8 and the first again.
\<close>

definition problem_three_forms :: problem where
  "problem_three_forms =
     problem_example\<lparr>
       problem_F := BaseForm \<lparr>arguments = [0], coefficients =
         [\<lparr>c_id = 1, c_function_space = \<lparr>fs_id = 0, dm = 0, mesh_comm = 7\<rparr>\<rparr>,
          \<lparr>c_id = 2, c_function_space = \<lparr>fs_id = 1, dm = 5, mesh_comm = 7\<rparr>\<rparr>]\<rparr>,
       problem_Jp := Some (BaseForm \<lparr>arguments = [0, 1], coefficients =
         [\<lparr>c_id = 4, c_function_space = \<lparr>fs_id = 3, dm = 8, mesh_comm = 7\<rparr>\<rparr>,
          \<lparr>c_id = 1, c_function_space = \<lparr>fs_id = 0, dm = 0, mesh_comm = 7\<rparr>\<rparr>]\<rparr>),
       problem_J := BaseForm \<lparr>arguments = [0, 1], coefficients =
         [\<lparr>c_id = 2, c_function_space = \<lparr>fs_id = 1, dm = 5, mesh_comm = 7\<rparr>\<rparr>,
          \<lparr>c_id = 3, c_function_space = \<lparr>fs_id = 2, dm = 6, mesh_comm = 7\<rparr>\<rparr>]\<rparr>\<rparr>"

definition solver_three_forms :: solver where
  "solver_three_forms = solver_init 1 [0] problem_three_forms"

text \<open>
  A residual with two coefficients on two different function spaces that have the same
  context 5.
\<close>

definition residual_shared_dm :: formarg where
  "residual_shared_dm = BaseForm \<lparr>arguments = [0], coefficients =
     [\<lparr>c_id = 1, c_function_space = \<lparr>fs_id = 1, dm = 5, mesh_comm = 7\<rparr>\<rparr>,
      \<lparr>c_id = 2, c_function_space = \<lparr>fs_id = 2, dm = 5, mesh_comm = 7\<rparr>\<rparr>]\<rparr>"

text \<open>A Jacobian other than the one \<open>derivative_example\<close> derives.\<close>

definition supplied_jacobian :: formarg where
  "supplied_jacobian = BaseForm \<lparr>arguments = [2, 3], coefficients = []\<rparr>"

definition derivative_failing :: "formarg \<Rightarrow> func \<Rightarrow> string + formarg" where
  "derivative_failing F u = Inl ''no derivative''"

lemmas example_defs =
  problem_three_forms_def solver_three_forms_def residual_shared_dm_def supplied_jacobian_def
  derivative_failing_def
  linear_form_def bilinear_form_def u_example_def derivative_example_def problem_example_def
  problem_coefficients_def solver_example_def engine_converging_def engine_diverging_def
  engine_no_bounds_def

lemmas init_defs =
  problem_init_def is_form_consistent_def J_or_derivative_def check_pde_args_def
  len_arguments_def

section \<open>Construction of the problem\<close>

lemma isinstance_form_truthy: "isinstance_form j \<Longrightarrow> truthy j"
  by (cases j) simp_all

lemma is_form_consistent_cases:
  "is_form_consistent lin bcs = Inl TypeError_form_style \<or> is_form_consistent lin bcs = Inr ()"
  unfolding is_form_consistent_def by simp

text \<open>
  The style check raises exactly when there is a condition other than a
  \<^verbatim>\<open>DirichletBC\<close> and every such condition has the style opposite to the declared one.
\<close>

lemma is_form_consistent_raises_iff:
  "is_form_consistent lin bcs = Inl TypeError_form_style \<longleftrightarrow>
     filter (\<lambda>b. \<not> isinstance_DirichletBC b) bcs \<noteq> [] \<and>
     (\<forall>b \<in> set (filter (\<lambda>b. \<not> isinstance_DirichletBC b) bcs). is_linear b \<noteq> lin)"
  unfolding is_form_consistent_def
  by (cases "filter (\<lambda>b. \<not> isinstance_DirichletBC b) bcs"; cases lin)
     (auto simp: list_all_iff)

lemma problem_init_example:
  "problem_init derivative_example linear_form (IsFunction u_example) None None None None False
     = Inr problem_example"
  by (simp add: init_defs example_defs)

lemma problem_init_InrD:
  assumes "problem_init derivative F u bcs J Jp fcp lin = Inr p"
  shows "is_form_consistent lin (extract_bcs bcs) = Inr ()"
    and "u = IsFunction (problem_u p)"
    and "J_or_derivative derivative F (problem_u p) J = Inr (problem_J p)"
    and "check_pde_args F (problem_J p) Jp = Inr ()"
    and "problem_F p = F" and "problem_Jp p = Jp"
  using assms unfolding problem_init_def
  by (auto split: sum.splits uarg.splits)

lemma problem_init_checks:
  assumes "is_form_consistent lin (extract_bcs bcs) = Inr ()"
      and "J_or_derivative derivative F uf J = Inr j"
      and "check_pde_args F j Jp = Inl e"
  shows "problem_init derivative F (IsFunction uf) bcs J Jp fcp lin = Inl e"
  using assms by (simp add: problem_init_def)

lemma problem_init_InlD:
  assumes "problem_init derivative F u bcs J Jp fcp lin = Inl e"
  shows "e = TypeError_form_style
       \<or> (\<exists>t. u = NotFunction t \<and> e = TypeError_solution t)
       \<or> (\<exists>uf m. u = IsFunction uf \<and> J_or_derivative derivative F uf J = Inl (ExternalError m)
              \<and> e = ExternalError m)
       \<or> (\<exists>uf j. u = IsFunction uf \<and> J_or_derivative derivative F uf J = Inr j
              \<and> check_pde_args F j Jp = Inl e)"
proof -
  have J: "\<And>uf e'. J_or_derivative derivative F uf J = Inl e' \<Longrightarrow> \<exists>m. e' = ExternalError m"
    by (auto simp: J_or_derivative_def split: option.splits sum.splits if_splits)
  show ?thesis
    using assms is_form_consistent_cases [of lin "extract_bcs bcs"]
    unfolding problem_init_def
    by (auto split: sum.splits uarg.splits dest: J)
qed

lemma check_pde_args_arity:
  assumes "check_pde_args F j Jp = Inl e" and "kind e = ArityKind"
  shows "(isinstance_form F \<and> len_arguments F \<noteq> 1)
       \<or> (isinstance_form j \<and> len_arguments j \<noteq> 2)
       \<or> (\<exists>P. Jp = Some P \<and> isinstance_form P \<and> len_arguments P \<noteq> 2)"
  using assms unfolding check_pde_args_def
  by (auto split: if_splits option.splits)

text \<open>
  C2, at the input that breaks it. The declared style is \<^verbatim>\<open>is_linear=False\<close> and the
  boundary conditions are one equation condition in the \<^verbatim>\<open>A == b\<close> style
  (\<^verbatim>\<open>is_linear=True\<close>) and one in the \<^verbatim>\<open>F == 0\<close> style: the first disagrees with the
  declared style, yet the style check passes and the problem is constructed.
\<close>

theorem C2_mixed_styles_accepted:
  "is_form_consistent False [EquationBC True [], EquationBC False []] = Inr ()
   \<and> problem_init derivative_example linear_form (IsFunction u_example)
        (Some [EquationBC True [], EquationBC False []]) None None None False
     = Inr (problem_example\<lparr>problem_bcs := [EquationBC True [], EquationBC False []]\<rparr>)"
  by (simp add: init_defs example_defs)

text \<open>
  C5. When construction succeeds, the Jacobian of the descriptor is the result of the
  symbolic differentiation of the residual with respect to the unknown if none was
  passed, and the form passed, unchanged, if one was. And construction does succeed
  with these Jacobians: when the style check passes, the unknown is a \<^verbatim>\<open>Function\<close>, the
  residual is a form of arity 1 and the preconditioner, if present, a form of arity 2,
  then without a Jacobian argument the descriptor holds the form of arity 2 that the
  differentiation of the residual with respect to the unknown returns, and with a form
  of arity 2 passed as Jacobian the descriptor holds that form, whatever the
  differentiation would do.
\<close>

theorem C5_jacobian_default:
  "(problem_init derivative F u bcs J Jp fcp lin = Inr p \<longrightarrow>
      (J = None \<longrightarrow> derivative F (problem_u p) = Inr (problem_J p))
    \<and> (\<forall>j. J = Some j \<and> isinstance_form j \<longrightarrow> problem_J p = j))
   \<and> (is_form_consistent lin (extract_bcs bcs) = Inr ()
      \<and> isinstance_form F \<and> len_arguments F = 1
      \<and> isinstance_form j \<and> len_arguments j = 2
      \<and> (\<forall>P. Jp = Some P \<longrightarrow> isinstance_form P \<and> len_arguments P = 2) \<longrightarrow>
      (derivative F uf = Inr j \<longrightarrow>
         problem_init derivative F (IsFunction uf) bcs None Jp fcp lin =
           Inr \<lparr>problem_bcs = extract_bcs bcs, problem_is_linear = lin, Jp_eq_J = (Jp = None),
                problem_u = uf, problem_F = F, problem_Jp = Jp, problem_J = j,
                form_compiler_parameters = fcp, constant_jacobian = False\<rparr>)
    \<and> problem_init derivative F (IsFunction uf) bcs (Some j) Jp fcp lin =
           Inr \<lparr>problem_bcs = extract_bcs bcs, problem_is_linear = lin, Jp_eq_J = (Jp = None),
                problem_u = uf, problem_F = F, problem_Jp = Jp, problem_J = j,
                form_compiler_parameters = fcp, constant_jacobian = False\<rparr>)"
proof (intro conjI impI)
  assume a: "problem_init derivative F u bcs J Jp fcp lin = Inr p"
  { assume "J = None"
    with problem_init_InrD(3) [OF a] show "derivative F (problem_u p) = Inr (problem_J p)"
      by (auto simp: J_or_derivative_def split: sum.splits) }
  show "\<forall>j. J = Some j \<and> isinstance_form j \<longrightarrow> problem_J p = j"
    using problem_init_InrD(3) [OF a]
    by (auto simp: J_or_derivative_def isinstance_form_truthy)
next
  assume b: "is_form_consistent lin (extract_bcs bcs) = Inr ()
      \<and> isinstance_form F \<and> len_arguments F = 1
      \<and> isinstance_form j \<and> len_arguments j = 2
      \<and> (\<forall>P. Jp = Some P \<longrightarrow> isinstance_form P \<and> len_arguments P = 2)"
  then have chk: "check_pde_args F j Jp = Inr ()"
    by (auto simp: check_pde_args_def split: option.splits)
  from b have tr: "truthy j" by (simp add: isinstance_form_truthy)
  { assume "derivative F uf = Inr j"
    with b chk show "problem_init derivative F (IsFunction uf) bcs None Jp fcp lin =
           Inr \<lparr>problem_bcs = extract_bcs bcs, problem_is_linear = lin, Jp_eq_J = (Jp = None),
                problem_u = uf, problem_F = F, problem_Jp = Jp, problem_J = j,
                form_compiler_parameters = fcp, constant_jacobian = False\<rparr>"
      by (simp add: problem_init_def J_or_derivative_def) }
  from b chk tr show "problem_init derivative F (IsFunction uf) bcs (Some j) Jp fcp lin =
           Inr \<lparr>problem_bcs = extract_bcs bcs, problem_is_linear = lin, Jp_eq_J = (Jp = None),
                problem_u = uf, problem_F = F, problem_Jp = Jp, problem_J = j,
                form_compiler_parameters = fcp, constant_jacobian = False\<rparr>"
    by (simp add: problem_init_def J_or_derivative_def)
qed

theorem C5_jacobian_default_witness:
  "problem_init derivative_example linear_form (IsFunction u_example) None None None None False
     = Inr problem_example
   \<and> derivative_example linear_form u_example = Inr bilinear_form
   \<and> problem_J problem_example = bilinear_form
   \<and> problem_init derivative_example linear_form (IsFunction u_example) None
        (Some supplied_jacobian) (Some bilinear_form) None False
     = Inr (problem_example\<lparr>Jp_eq_J := False, problem_Jp := Some bilinear_form,
                             problem_J := supplied_jacobian\<rparr>)
   \<and> problem_init derivative_failing linear_form (IsFunction u_example) None
        (Some supplied_jacobian) None None False
     = Inr (problem_example\<lparr>problem_J := supplied_jacobian\<rparr>)
   \<and> supplied_jacobian \<noteq> bilinear_form"
proof -
  have st: "is_form_consistent False (extract_bcs None) = Inr ()"
    by (simp add: init_defs)
  have fm: "isinstance_form linear_form \<and> len_arguments linear_form = 1
      \<and> isinstance_form bilinear_form \<and> len_arguments bilinear_form = 2
      \<and> isinstance_form supplied_jacobian \<and> len_arguments supplied_jacobian = 2"
    by (simp add: init_defs example_defs)
  have dv: "derivative_example linear_form u_example = Inr bilinear_form"
    by (simp add: example_defs)
  have ne: "supplied_jacobian \<noteq> bilinear_form"
    by (simp add: example_defs)
  have ex: "problem_J problem_example = bilinear_form" by (simp add: example_defs)
  from C5_jacobian_default [of derivative_example linear_form "IsFunction u_example" None None
          None None False problem_example bilinear_form u_example]
       C5_jacobian_default [of derivative_example linear_form "IsFunction u_example" None None
          "Some bilinear_form" None False problem_example supplied_jacobian u_example]
       C5_jacobian_default [of derivative_failing linear_form "IsFunction u_example" None None
          None None False problem_example supplied_jacobian u_example]
       st fm dv ne ex
  show ?thesis by (simp add: example_defs)
qed

text \<open>
  C6 as stated fails: a residual with two free arguments and an unknown that is not a
  \<^verbatim>\<open>Function\<close> raise the type error of the unknown, which is checked first.
\<close>

theorem C6_counterexample:
  "problem_init derivative_example bilinear_form (NotFunction ''int'') None None None None False
     = Inl (TypeError_solution ''int'')
   \<and> len_arguments bilinear_form \<noteq> 1
   \<and> kind (TypeError_solution ''int'') \<noteq> ArityKind"
  by (simp add: init_defs example_defs)

text \<open>
  C6, amended. When the style check has passed, the unknown is a \<^verbatim>\<open>Function\<close> and the
  Jacobian was passed or derived without an exception, construction fails with the arity
  error of the first form, in the order residual, Jacobian, preconditioner, that has the
  wrong number of free arguments, the forms before it being forms of the right arity.
  Conversely, whatever the inputs, an arity error is raised only if one of the three is a
  form with the wrong number of free arguments.
\<close>

theorem C6_arity_errors:
  "(is_form_consistent lin (extract_bcs bcs) = Inr () \<and>
    J_or_derivative derivative F uf J = Inr j \<longrightarrow>
      (isinstance_form F \<and> len_arguments F \<noteq> 1 \<longrightarrow>
         problem_init derivative F (IsFunction uf) bcs J Jp fcp lin = Inl ValueError_residual)
    \<and> (isinstance_form F \<and> len_arguments F = 1 \<and> isinstance_form j \<and> len_arguments j \<noteq> 2 \<longrightarrow>
         problem_init derivative F (IsFunction uf) bcs J Jp fcp lin = Inl ValueError_Jacobian)
    \<and> (\<forall>P. isinstance_form F \<and> len_arguments F = 1 \<and> isinstance_form j \<and> len_arguments j = 2 \<and>
            Jp = Some P \<and> isinstance_form P \<and> len_arguments P \<noteq> 2 \<longrightarrow>
         problem_init derivative F (IsFunction uf) bcs J Jp fcp lin = Inl ValueError_preconditioner))
   \<and> (\<forall>e. problem_init derivative F u bcs J Jp fcp lin = Inl e \<and> kind e = ArityKind \<longrightarrow>
         (isinstance_form F \<and> len_arguments F \<noteq> 1)
       \<or> (\<exists>u' j'. u = IsFunction u' \<and> J_or_derivative derivative F u' J = Inr j' \<and>
              isinstance_form j' \<and> len_arguments j' \<noteq> 2)
       \<or> (\<exists>P. Jp = Some P \<and> isinstance_form P \<and> len_arguments P \<noteq> 2))"
proof (intro conjI impI allI)
  assume a: "is_form_consistent lin (extract_bcs bcs) = Inr () \<and>
    J_or_derivative derivative F uf J = Inr j"
  { assume "isinstance_form F \<and> len_arguments F \<noteq> 1"
    then have "check_pde_args F j Jp = Inl ValueError_residual"
      by (simp add: check_pde_args_def)
    with a show "problem_init derivative F (IsFunction uf) bcs J Jp fcp lin = Inl ValueError_residual"
      by (simp add: problem_init_checks) }
  { assume "isinstance_form F \<and> len_arguments F = 1 \<and> isinstance_form j \<and> len_arguments j \<noteq> 2"
    then have "check_pde_args F j Jp = Inl ValueError_Jacobian"
      by (simp add: check_pde_args_def)
    with a show "problem_init derivative F (IsFunction uf) bcs J Jp fcp lin = Inl ValueError_Jacobian"
      by (simp add: problem_init_checks) }
  { fix P
    assume "isinstance_form F \<and> len_arguments F = 1 \<and> isinstance_form j \<and> len_arguments j = 2 \<and>
            Jp = Some P \<and> isinstance_form P \<and> len_arguments P \<noteq> 2"
    then have "check_pde_args F j Jp = Inl ValueError_preconditioner"
      by (simp add: check_pde_args_def)
    with a show "problem_init derivative F (IsFunction uf) bcs J Jp fcp lin = Inl ValueError_preconditioner"
      by (simp add: problem_init_checks) }
next
  fix e
  assume b: "problem_init derivative F u bcs J Jp fcp lin = Inl e \<and> kind e = ArityKind"
  from problem_init_InlD [of derivative F u bcs J Jp fcp lin e] b
  obtain u' j' where "u = IsFunction u'" "J_or_derivative derivative F u' J = Inr j'"
      "check_pde_args F j' Jp = Inl e"
    by auto
  with check_pde_args_arity [of F j' Jp e] b
  show "(isinstance_form F \<and> len_arguments F \<noteq> 1)
       \<or> (\<exists>u' j'. u = IsFunction u' \<and> J_or_derivative derivative F u' J = Inr j' \<and>
              isinstance_form j' \<and> len_arguments j' \<noteq> 2)
       \<or> (\<exists>P. Jp = Some P \<and> isinstance_form P \<and> len_arguments P \<noteq> 2)"
    by blast
qed

theorem C6_arity_errors_witness:
  "is_form_consistent False (extract_bcs None) = Inr ()
   \<and> J_or_derivative derivative_example bilinear_form u_example None = Inr bilinear_form
   \<and> isinstance_form bilinear_form \<and> len_arguments bilinear_form \<noteq> 1
   \<and> problem_init derivative_example bilinear_form (IsFunction u_example) None None None None False
       = Inl ValueError_residual
   \<and> kind ValueError_residual = ArityKind"
proof -
  have h: "is_form_consistent False (extract_bcs None) = Inr ()
     \<and> J_or_derivative derivative_example bilinear_form u_example None = Inr bilinear_form"
    by (simp add: init_defs example_defs)
  have g: "isinstance_form bilinear_form \<and> len_arguments bilinear_form \<noteq> 1"
    by (simp add: init_defs example_defs)
  from C6_arity_errors [of False None derivative_example bilinear_form u_example None
        bilinear_form None None "IsFunction u_example"] h g
  show ?thesis by simp
qed

lemma check_pde_args_type:
  assumes "check_pde_args F j Jp = Inl e" and "kind e = TypeKind"
  shows "\<not> isinstance_form F \<or> \<not> isinstance_form j
       \<or> (\<exists>P. Jp = Some P \<and> \<not> isinstance_form P)"
  using assms unfolding check_pde_args_def
  by (auto split: if_splits option.splits)

text \<open>
  C7 as stated fails: a supplied Jacobian that is a form with one free argument raises
  the value error of the Jacobian (the arity kind), not a type error.
\<close>

theorem C7_counterexample:
  "problem_init derivative_example linear_form (IsFunction u_example) None
        (Some linear_form) None None False
     = Inl ValueError_Jacobian
   \<and> len_arguments linear_form \<noteq> 2
   \<and> kind ValueError_Jacobian \<noteq> TypeKind"
  by (simp add: init_defs example_defs)

text \<open>
  C7, amended. When the style check has passed, construction fails with a type error if
  the unknown is not a \<^verbatim>\<open>Function\<close>; otherwise, the Jacobian being passed or derived
  without an exception, if the residual is not a form value; or, the residual being a
  form of arity 1, if the Jacobian is not a form value; or, the Jacobian being a form of
  arity 2, if the preconditioner is present and not a form value. Conversely, whatever
  the inputs, a type error is raised only for an unknown that is not a \<^verbatim>\<open>Function\<close> or
  for a value that is not a form: a form of the wrong arity never raises one.
\<close>

theorem C7_type_errors:
  "(is_form_consistent lin (extract_bcs bcs) = Inr () \<longrightarrow>
      (\<forall>t. problem_init derivative F (NotFunction t) bcs J Jp fcp lin
             = Inl (TypeError_solution t)))
   \<and> (is_form_consistent lin (extract_bcs bcs) = Inr () \<and>
      J_or_derivative derivative F uf J = Inr j \<longrightarrow>
      (\<not> isinstance_form F \<longrightarrow>
         problem_init derivative F (IsFunction uf) bcs J Jp fcp lin
           = Inl (TypeError_residual (type_name F)))
    \<and> (isinstance_form F \<and> len_arguments F = 1 \<and> \<not> isinstance_form j \<longrightarrow>
         problem_init derivative F (IsFunction uf) bcs J Jp fcp lin
           = Inl (TypeError_Jacobian (type_name j)))
    \<and> (\<forall>P. isinstance_form F \<and> len_arguments F = 1 \<and> isinstance_form j \<and> len_arguments j = 2 \<and>
            Jp = Some P \<and> \<not> isinstance_form P \<longrightarrow>
         problem_init derivative F (IsFunction uf) bcs J Jp fcp lin
           = Inl (TypeError_preconditioner (type_name P))))
   \<and> (\<forall>e. problem_init derivative F u bcs J Jp fcp lin = Inl e \<and> kind e = TypeKind \<longrightarrow>
         (\<exists>t. u = NotFunction t)
       \<or> \<not> isinstance_form F
       \<or> (\<exists>u' j'. u = IsFunction u' \<and> J_or_derivative derivative F u' J = Inr j' \<and>
              \<not> isinstance_form j')
       \<or> (\<exists>P. Jp = Some P \<and> \<not> isinstance_form P))"
proof (intro conjI impI allI)
  fix t
  assume "is_form_consistent lin (extract_bcs bcs) = Inr ()"
  then show "problem_init derivative F (NotFunction t) bcs J Jp fcp lin
               = Inl (TypeError_solution t)"
    by (simp add: problem_init_def)
next
  assume a: "is_form_consistent lin (extract_bcs bcs) = Inr () \<and>
    J_or_derivative derivative F uf J = Inr j"
  { assume "\<not> isinstance_form F"
    then have "check_pde_args F j Jp = Inl (TypeError_residual (type_name F))"
      by (simp add: check_pde_args_def)
    with a show "problem_init derivative F (IsFunction uf) bcs J Jp fcp lin
                   = Inl (TypeError_residual (type_name F))"
      by (simp add: problem_init_checks) }
  { assume "isinstance_form F \<and> len_arguments F = 1 \<and> \<not> isinstance_form j"
    then have "check_pde_args F j Jp = Inl (TypeError_Jacobian (type_name j))"
      by (simp add: check_pde_args_def)
    with a show "problem_init derivative F (IsFunction uf) bcs J Jp fcp lin
                   = Inl (TypeError_Jacobian (type_name j))"
      by (simp add: problem_init_checks) }
  { fix P
    assume "isinstance_form F \<and> len_arguments F = 1 \<and> isinstance_form j \<and> len_arguments j = 2 \<and>
            Jp = Some P \<and> \<not> isinstance_form P"
    then have "check_pde_args F j Jp = Inl (TypeError_preconditioner (type_name P))"
      by (simp add: check_pde_args_def)
    with a show "problem_init derivative F (IsFunction uf) bcs J Jp fcp lin
                   = Inl (TypeError_preconditioner (type_name P))"
      by (simp add: problem_init_checks) }
next
  fix e
  assume b: "problem_init derivative F u bcs J Jp fcp lin = Inl e \<and> kind e = TypeKind"
  from problem_init_InlD [of derivative F u bcs J Jp fcp lin e] b
  consider (unknown) t where "u = NotFunction t"
    | (checks) u' j' where "u = IsFunction u'" "J_or_derivative derivative F u' J = Inr j'"
        "check_pde_args F j' Jp = Inl e"
    by auto
  then show "(\<exists>t. u = NotFunction t)
       \<or> \<not> isinstance_form F
       \<or> (\<exists>u' j'. u = IsFunction u' \<and> J_or_derivative derivative F u' J = Inr j' \<and>
              \<not> isinstance_form j')
       \<or> (\<exists>P. Jp = Some P \<and> \<not> isinstance_form P)"
  proof cases
    case unknown
    then show ?thesis by blast
  next
    case checks
    with check_pde_args_type [of F j' Jp e] b show ?thesis by blast
  qed
qed

theorem C7_type_errors_witness:
  "is_form_consistent False (extract_bcs None) = Inr ()
   \<and> J_or_derivative derivative_example linear_form u_example (Some (NotForm ''float'' True))
       = Inr (NotForm ''float'' True)
   \<and> problem_init derivative_example linear_form (NotFunction ''int'') None
        (Some (NotForm ''float'' True)) None None False
       = Inl (TypeError_solution ''int'')
   \<and> problem_init derivative_example linear_form (IsFunction u_example) None
        (Some (NotForm ''float'' True)) None None False
       = Inl (TypeError_Jacobian ''float'')
   \<and> kind (TypeError_Jacobian ''float'') = TypeKind"
proof -
  have h: "is_form_consistent False (extract_bcs None) = Inr ()"
    by (simp add: init_defs)
  have g: "J_or_derivative derivative_example linear_form u_example (Some (NotForm ''float'' True))
       = Inr (NotForm ''float'' True)"
    by (simp add: init_defs)
  have f: "isinstance_form linear_form \<and> len_arguments linear_form = 1
       \<and> \<not> isinstance_form (NotForm ''float'' True)"
    by (simp add: init_defs example_defs)
  from C7_type_errors [of False None derivative_example linear_form
        "Some (NotForm ''float'' True)" None None u_example "NotForm ''float'' True"
        "IsFunction u_example"] h g f
  show ?thesis by simp
qed

section \<open>The solve call\<close>

lemmas step_defs = emit_def set_function_def set_jacobian_def set_u_dat_def u_dat_def
  enter_contexts_def exit_contexts_def garbage_cleanup_def check_snes_convergence_def

lemma unique_foldl_set:
  "set (foldl (\<lambda>acc x. if x \<in> set acc then acc else acc @ [x]) a xs) = set a \<union> set xs"
  by (induction xs arbitrary: a) auto

lemma unique_foldl_distinct:
  "distinct a \<Longrightarrow> distinct (foldl (\<lambda>acc x. if x \<in> set acc then acc else acc @ [x]) a xs)"
  by (induction xs arbitrary: a) auto

lemma set_unique [simp]: "set (unique xs) = set xs"
  by (simp add: unique_def unique_foldl_set)

lemma distinct_unique [simp]: "distinct (unique xs)"
  by (simp add: unique_def unique_foldl_distinct)

lemma apply_dirichlet_bcs_trace:
  "trace (apply_dirichlet_bcs eng ds s) = trace s @ map ApplyBC ds"
  by (induction ds arbitrary: s) (simp_all add: step_defs)

lemma apply_dirichlet_bcs_fields:
  "ctx (apply_dirichlet_bcs eng ds s) = ctx s"
  "work (apply_dirichlet_bcs eng ds s) = work s"
  "transfer_operators (apply_dirichlet_bcs eng ds s) = transfer_operators s"
  "setup_flag (apply_dirichlet_bcs eng ds s) = setup_flag s"
  "snes_dm (apply_dirichlet_bcs eng ds s) = snes_dm s"
  "snes_function (apply_dirichlet_bcs eng ds s) = snes_function s"
  "snes_jacobian (apply_dirichlet_bcs eng ds s) = snes_jacobian s"
  "snes_bounds (apply_dirichlet_bcs eng ds s) = snes_bounds s"
  "snes_reason (apply_dirichlet_bcs eng ds s) = snes_reason s"
  by (induction ds arbitrary: s; simp add: step_defs)+

lemma apply_dirichlet_bcs_comm:
  "f_function_space (problem_u (solver_problem (apply_dirichlet_bcs eng ds s)))
     = f_function_space (problem_u (solver_problem s))"
  by (induction ds arbitrary: s) (simp_all add: step_defs)

lemma problem_dms_rebind:
  "problem_dms (set_jacobian (set_function s)) = problem_dms s"
  by (simp add: problem_dms_def step_defs split: sum.splits)


lemma set_bounds_trace:
  "trace (snd (set_bounds eng b s)) = trace s @
     (case b of None \<Rightarrow> [] | Some (lo, up) \<Rightarrow>
        (case vec_ro lo of Inl _ \<Rightarrow> [] | Inr lb \<Rightarrow>
          (case vec_ro up of Inl _ \<Rightarrow> [] | Inr ub \<Rightarrow> [SetVariableBounds lb ub])))"
  by (simp add: set_bounds_def emit_def split: option.splits prod.splits sum.splits)

lemma set_bounds_fields:
  "ctx (snd (set_bounds eng b s)) = ctx s"
  "work (snd (set_bounds eng b s)) = work s"
  "transfer_operators (snd (set_bounds eng b s)) = transfer_operators s"
  "setup_flag (snd (set_bounds eng b s)) = setup_flag s"
  "snes_dm (snd (set_bounds eng b s)) = snes_dm s"
  "snes_function (snd (set_bounds eng b s)) = snes_function s"
  "snes_jacobian (snd (set_bounds eng b s)) = snes_jacobian s"
  "solver_problem (snd (set_bounds eng b s)) = solver_problem s"
  by (simp_all add: set_bounds_def emit_def split: option.splits prod.splits sum.splits)

lemma stage_trace:
  "trace (snd (stage eng b s)) = trace s @ [SetFunction (ctx s), SetJacobian (ctx s)] @
     (case problem_dms s of Inl _ \<Rightarrow> [] | Inr dms \<Rightarrow>
        map ApplyBC (dirichlet_bcs (solver_problem s)) @
        (case b of None \<Rightarrow> [] | Some (lo, up) \<Rightarrow>
          (case vec_ro lo of Inl _ \<Rightarrow> [] | Inr lb \<Rightarrow>
            (case vec_ro up of Inl _ \<Rightarrow> [] | Inr ub \<Rightarrow> [SetVariableBounds lb ub]))) @
        (case fst (stage eng b s) of Inl _ \<Rightarrow> [] | Inr _ \<Rightarrow>
           [CopyToWork, EnterOptions] @ map AttachDM dms @
           map EnterTransfer (transfer_operators s)))"
proof (cases "problem_dms s")
  case (Inl e)
  then show ?thesis
    by (simp add: stage_def Let_def problem_dms_rebind) (simp add: step_defs)
next
  case (Inr dms)
  let ?s1 = "set_jacobian (set_function s)"
  let ?s2 = "apply_dirichlet_bcs eng (dirichlet_bcs (solver_problem ?s1)) ?s1"
  have p1: "solver_problem ?s1 = solver_problem s" by (simp add: step_defs)
  have t2: "trace ?s2 = trace s @ [SetFunction (ctx s), SetJacobian (ctx s)]
              @ map ApplyBC (dirichlet_bcs (solver_problem s))"
    by (simp add: apply_dirichlet_bcs_trace p1) (simp add: step_defs)
  have tr: "transfer_operators ?s2 = transfer_operators s"
    by (simp add: apply_dirichlet_bcs_fields) (simp add: step_defs)
  obtain r s3 where sb: "set_bounds eng b ?s2 = (r, s3)" by (cases "set_bounds eng b ?s2")
  have t3: "trace s3 = trace ?s2 @ (case b of None \<Rightarrow> [] | Some (lo, up) \<Rightarrow>
          (case vec_ro lo of Inl _ \<Rightarrow> [] | Inr lb \<Rightarrow>
            (case vec_ro up of Inl _ \<Rightarrow> [] | Inr ub \<Rightarrow> [SetVariableBounds lb ub])))"
    using set_bounds_trace [of eng b ?s2] sb by simp
  have tr3: "transfer_operators s3 = transfer_operators s"
    using set_bounds_fields(3) [of eng b ?s2] sb tr by simp
  show ?thesis
  proof (cases r)
    case (Inl e)
    with Inr sb t3 t2 show ?thesis
      by (simp add: stage_def Let_def problem_dms_rebind)
  next
    case (Inr u)
    with \<open>problem_dms s = Inr dms\<close> sb t3 t2 tr3 show ?thesis
      by (simp add: stage_def Let_def problem_dms_rebind emit_def enter_contexts_def)
  qed
qed


lemma stage_InrD:
  assumes "stage eng b s = (Inr dms, s5)"
  shows "problem_dms s = Inr dms"
    and "ctx s5 = ctx s"
    and "transfer_operators s5 = transfer_operators s"
    and "snes_dm s5 = snes_dm s"
    and "snes_function s5 = Some (ctx s)"
    and "snes_jacobian s5 = Some (ctx s)"
    and "setup_flag s5 = setup_flag s"
    and "work s5 = u_dat s5"
    and "f_function_space (problem_u (solver_problem s5))
           = f_function_space (problem_u (solver_problem s))"
proof -
  let ?s1 = "set_jacobian (set_function s)"
  let ?s2 = "apply_dirichlet_bcs eng (dirichlet_bcs (solver_problem ?s1)) ?s1"
  from assms have dms: "problem_dms s = Inr dms"
    by (auto simp: stage_def Let_def problem_dms_rebind split: sum.splits prod.splits)
  with assms have s5: "s5 = enter_contexts dms
      (emit [CopyToWork] ((snd (set_bounds eng b ?s2))\<lparr>work := u_dat (snd (set_bounds eng b ?s2))\<rparr>))"
    by (auto simp: stage_def Let_def problem_dms_rebind split: sum.splits prod.splits)
  show "problem_dms s = Inr dms" by (rule dms)
  show "ctx s5 = ctx s"
    unfolding s5 by (simp add: step_defs set_bounds_fields apply_dirichlet_bcs_fields)
  show "transfer_operators s5 = transfer_operators s"
    unfolding s5 by (simp add: step_defs set_bounds_fields apply_dirichlet_bcs_fields)
  show "snes_dm s5 = snes_dm s"
    unfolding s5 by (simp add: step_defs set_bounds_fields apply_dirichlet_bcs_fields)
  show "snes_function s5 = Some (ctx s)"
    unfolding s5 by (simp add: step_defs set_bounds_fields apply_dirichlet_bcs_fields)
  show "snes_jacobian s5 = Some (ctx s)"
    unfolding s5 by (simp add: step_defs set_bounds_fields apply_dirichlet_bcs_fields)
  show "setup_flag s5 = setup_flag s"
    unfolding s5 by (simp add: step_defs set_bounds_fields apply_dirichlet_bcs_fields)
  show "work s5 = u_dat s5"
    unfolding s5 by (simp add: step_defs)
  have "f_function_space (problem_u (solver_problem s5))
          = f_function_space (problem_u (solver_problem ?s2))"
    unfolding s5 by (simp add: step_defs set_bounds_fields)
  also have "\<dots> = f_function_space (problem_u (solver_problem ?s1))"
    by (rule apply_dirichlet_bcs_comm)
  also have "\<dots> = f_function_space (problem_u (solver_problem s))"
    by (simp add: step_defs)
  finally show "f_function_space (problem_u (solver_problem s5))
           = f_function_space (problem_u (solver_problem s))" .
qed

lemma solve_trace:
  "trace (snd (solve eng b s)) = trace (snd (stage eng b s)) @
     (case stage eng b s of
        (Inl _, _) \<Rightarrow> []
      | (Inr dms, s5) \<Rightarrow>
          [SnesSolve] @ map ExitTransfer (rev (transfer_operators s)) @
          map DetachDM (rev dms) @ [ExitOptions] @
          (case snes_solve eng s5 of
             Inl _ \<Rightarrow> []
           | Inr (w, r) \<Rightarrow>
               [CopyBack, MarkSetup, CheckConvergence] @
               (if r < 0 then []
                else [GarbageCleanup (mesh_comm (f_function_space (problem_u (solver_problem s))))])))"
proof (cases "stage eng b s")
  case (Pair res s5)
  show ?thesis
  proof (cases res)
    case (Inl e)
    with Pair show ?thesis by (simp add: solve_def)
  next
    case (Inr dms)
    note st = stage_InrD [OF Pair [unfolded Inr]]
    show ?thesis
    proof (cases "snes_solve eng s5")
      case (Inl c)
      with Pair Inr st(3) show ?thesis by (simp add: solve_def step_defs)
    next
      case (Inr wr)
      obtain w r where wr: "wr = (w, r)" by (cases wr)
      from Pair \<open>res = Inr dms\<close> Inr wr st(3) st(9) show ?thesis
        by (simp add: solve_def Let_def step_defs)
    qed
  qed
qed

lemma solve_result:
  "fst (solve eng b s) =
     (case stage eng b s of
        (Inl e, _) \<Rightarrow> Inl e
      | (Inr dms, s5) \<Rightarrow>
          (case snes_solve eng s5 of
             Inl c \<Rightarrow> Inl (PETScError c)
           | Inr (w, r) \<Rightarrow> if r < 0 then Inl (ConvergenceError r) else Inr ()))"
  by (simp add: solve_def Let_def step_defs split: prod.splits sum.splits)

lemma solve_completed:
  assumes "stage eng b s = (Inr dms, s5)" and "snes_solve eng s5 = Inr (w, r)"
  shows "u_dat (snd (solve eng b s)) = w"
    and "work (snd (solve eng b s)) = w"
    and "setup_flag (snd (solve eng b s)) = True"
    and "snes_reason (snd (solve eng b s)) = r"
  using assms by (simp_all add: solve_def Let_def step_defs)

lemma events_eq:
  "events eng b s = [SetFunction (ctx s), SetJacobian (ctx s)] @
     (case problem_dms s of Inl _ \<Rightarrow> [] | Inr dms \<Rightarrow>
        map ApplyBC (dirichlet_bcs (solver_problem s)) @
        (case b of None \<Rightarrow> [] | Some (lo, up) \<Rightarrow>
          (case vec_ro lo of Inl _ \<Rightarrow> [] | Inr lb \<Rightarrow>
            (case vec_ro up of Inl _ \<Rightarrow> [] | Inr ub \<Rightarrow> [SetVariableBounds lb ub]))) @
        (case stage eng b s of
           (Inl _, _) \<Rightarrow> []
         | (Inr _, s5) \<Rightarrow>
            [CopyToWork, EnterOptions] @ map AttachDM dms @
            map EnterTransfer (transfer_operators s) @
            [SnesSolve] @ map ExitTransfer (rev (transfer_operators s)) @
            map DetachDM (rev dms) @ [ExitOptions] @
            (case snes_solve eng s5 of
               Inl _ \<Rightarrow> []
             | Inr (w, r) \<Rightarrow>
                 [CopyBack, MarkSetup, CheckConvergence] @
                 (if r < 0 then []
                  else [GarbageCleanup (mesh_comm (f_function_space (problem_u (solver_problem s))))]))))"
proof (cases "stage eng b s")
  case (Pair res s5)
  show ?thesis
  proof (cases res)
    case (Inl e)
    with Pair show ?thesis
      unfolding events_def solve_trace stage_trace
      by (simp split: sum.splits)
  next
    case (Inr dms)
    from stage_InrD(1) [OF Pair [unfolded Inr]] Pair Inr show ?thesis
      unfolding events_def solve_trace stage_trace
      by simp
  qed
qed

lemmas solve_defs = solve_def stage_def set_bounds_def problem_dms_def chained_coefficients_def
  dirichlet_bcs_def unique_def solver_init_def events_def

lemma stage_bindings:
  "snes_function (snd (stage eng b s)) = Some (ctx s)"
  "snes_jacobian (snd (stage eng b s)) = Some (ctx s)"
proof -
  let ?s1 = "set_jacobian (set_function s)"
  let ?s2 = "apply_dirichlet_bcs eng (dirichlet_bcs (solver_problem ?s1)) ?s1"
  have a: "snes_function (snd (set_bounds eng b ?s2)) = Some (ctx s)"
          "snes_jacobian (snd (set_bounds eng b ?s2)) = Some (ctx s)"
    by (simp_all add: set_bounds_fields apply_dirichlet_bcs_fields) (simp_all add: step_defs)
  have b: "snes_function ?s1 = Some (ctx s)" "snes_jacobian ?s1 = Some (ctx s)"
    by (simp_all add: step_defs)
  show "snes_function (snd (stage eng b s)) = Some (ctx s)"
    using a(1) b(1)
    by (auto simp: stage_def Let_def enter_contexts_def emit_def split: sum.splits prod.splits)
  show "snes_jacobian (snd (stage eng b s)) = Some (ctx s)"
    using a(2) b(2)
    by (auto simp: stage_def Let_def enter_contexts_def emit_def split: sum.splits prod.splits)
qed

lemma solve_bindings:
  "snes_function (snd (solve eng b s)) = Some (ctx s)"
  "snes_jacobian (snd (solve eng b s)) = Some (ctx s)"
  using stage_bindings [of eng b s]
  by (auto simp: solve_def Let_def step_defs split: sum.splits prod.splits)

text \<open>
  C8: in every call, whatever the engine, the bounds and the solver, the first two
  events are the registration of the residual callback and of the Jacobian callback of
  this solver's context, and no other registration follows; so they precede every
  attachment of a context. When the call ends, by return or by exception, both callbacks
  of the engine are those of this solver's context. Registering twice leaves the solver
  as registering once does, up to the recorded event.
\<close>

theorem C8_rebind_first:
  "take 2 (events eng b s) = [SetFunction (ctx s), SetJacobian (ctx s)]
   \<and> filter is_rebind (events eng b s) = [SetFunction (ctx s), SetJacobian (ctx s)]
   \<and> snes_function (snd (solve eng b s)) = Some (ctx s)
   \<and> snes_jacobian (snd (solve eng b s)) = Some (ctx s)
   \<and> set_function (set_function s) = emit [SetFunction (ctx s)] (set_function s)
   \<and> set_jacobian (set_jacobian s) = emit [SetJacobian (ctx s)] (set_jacobian s)"
proof (intro conjI)
  show "take 2 (events eng b s) = [SetFunction (ctx s), SetJacobian (ctx s)]"
    by (simp add: events_eq)
  show "filter is_rebind (events eng b s) = [SetFunction (ctx s), SetJacobian (ctx s)]"
    by (simp add: events_eq filter_map comp_def split: sum.splits option.splits prod.splits)
  show "snes_function (snd (solve eng b s)) = Some (ctx s)"
    by (rule solve_bindings)
  show "snes_jacobian (snd (solve eng b s)) = Some (ctx s)"
    by (rule solve_bindings)
  show "set_function (set_function s) = emit [SetFunction (ctx s)] (set_function s)"
    by (simp add: step_defs)
  show "set_jacobian (set_jacobian s) = emit [SetJacobian (ctx s)] (set_jacobian s)"
    by (simp add: step_defs)
qed

lemma example_stage_converging:
  "fst (stage engine_converging None solver_example) = Inr [5, 0]"
  by (simp add: solve_defs step_defs example_defs Let_def)

lemma example_stage_diverging:
  "fst (stage engine_diverging None solver_example) = Inr [5, 0]"
  by (simp add: solve_defs step_defs example_defs Let_def)

lemma stage_collapse:
  "fst (stage eng b s) = Inr dms \<Longrightarrow> stage eng b s = (Inr dms, snd (stage eng b s))"
  by (metis prod.collapse)

lemma cleanup_events:
  "filter is_GarbageCleanup (events eng b s) =
     (if fst (solve eng b s) = Inr ()
      then [GarbageCleanup (mesh_comm (f_function_space (problem_u (solver_problem s))))]
      else [])"
proof (cases "stage eng b s")
  case (Pair res s5)
  show ?thesis
  proof (cases res)
    case (Inl e)
    with Pair show ?thesis
      by (simp add: events_eq solve_result filter_map comp_def split: sum.splits option.splits)
  next
    case (Inr dms)
    from stage_InrD(1) [OF Pair [unfolded Inr]] Pair Inr show ?thesis
      by (simp add: events_eq solve_result filter_map comp_def
               split: sum.splits option.splits prod.splits)
  qed
qed

text \<open>
  C1 as stated fails: with an engine whose solve completes with the diverged reason -3,
  the call raises the convergence error after the collective solve, and its events end
  with the convergence check: the cleanup is not reached.
\<close>

theorem C1_counterexample:
  "fst (solve engine_diverging None solver_example) = Inl (ConvergenceError (- 3))
   \<and> events engine_diverging None solver_example =
       [SetFunction 1, SetJacobian 1, ApplyBC 3, CopyToWork, EnterOptions, AttachDM 5,
        AttachDM 0, SnesSolve, DetachDM 0, DetachDM 5, ExitOptions, CopyBack,
        MarkSetup, CheckConvergence]"
  by (simp add: solve_defs step_defs example_defs Let_def)

text \<open>
  C1, amended. The cleanup call on the communicator of the problem is made exactly when
  \<^verbatim>\<open>solve\<close> returns without an exception, and then once. When the engine's collective
  solve completes, it is the last event, after the solve and the convergence check, if
  the engine converged; if the convergence check fails, no cleanup call is made.
\<close>

theorem C1_cleanup_iff_converged:
  "filter is_GarbageCleanup (events eng b s) =
     (if fst (solve eng b s) = Inr ()
      then [GarbageCleanup (mesh_comm (f_function_space (problem_u (solver_problem s))))]
      else [])
   \<and> (stage eng b s = (Inr dms, s5) \<and> snes_solve eng s5 = Inr (w, r) \<longrightarrow>
        (if r < 0
         then fst (solve eng b s) = Inl (ConvergenceError r)
              \<and> filter is_GarbageCleanup (events eng b s) = []
         else fst (solve eng b s) = Inr ()
              \<and> (\<exists>pre. events eng b s = pre @ [CheckConvergence,
                     GarbageCleanup (mesh_comm (f_function_space (problem_u (solver_problem s))))]
                   \<and> SnesSolve \<in> set pre)))"
proof (intro conjI impI)
  show "filter is_GarbageCleanup (events eng b s) =
     (if fst (solve eng b s) = Inr ()
      then [GarbageCleanup (mesh_comm (f_function_space (problem_u (solver_problem s))))]
      else [])"
    by (rule cleanup_events)
next
  assume a: "stage eng b s = (Inr dms, s5) \<and> snes_solve eng s5 = Inr (w, r)"
  with stage_InrD(1) [of eng b s dms s5] have pd: "problem_dms s = Inr dms" by simp
  show "if r < 0
         then fst (solve eng b s) = Inl (ConvergenceError r)
              \<and> filter is_GarbageCleanup (events eng b s) = []
         else fst (solve eng b s) = Inr ()
              \<and> (\<exists>pre. events eng b s = pre @ [CheckConvergence,
                     GarbageCleanup (mesh_comm (f_function_space (problem_u (solver_problem s))))]
                   \<and> SnesSolve \<in> set pre)"
  proof (cases "r < 0")
    case True
    with a show ?thesis by (simp add: cleanup_events solve_result)
  next
    case False
    let ?pre = "[SetFunction (ctx s), SetJacobian (ctx s)] @
        map ApplyBC (dirichlet_bcs (solver_problem s)) @
        (case b of None \<Rightarrow> [] | Some (lo, up) \<Rightarrow>
          (case vec_ro lo of Inl _ \<Rightarrow> [] | Inr lb \<Rightarrow>
            (case vec_ro up of Inl _ \<Rightarrow> [] | Inr ub \<Rightarrow> [SetVariableBounds lb ub]))) @
        [CopyToWork, EnterOptions] @ map AttachDM dms @
        map EnterTransfer (transfer_operators s) @
        [SnesSolve] @ map ExitTransfer (rev (transfer_operators s)) @
        map DetachDM (rev dms) @ [ExitOptions] @ [CopyBack, MarkSetup]"
    from a pd False have "events eng b s = ?pre @ [CheckConvergence,
        GarbageCleanup (mesh_comm (f_function_space (problem_u (solver_problem s))))]"
      by (simp add: events_eq)
    moreover have "SnesSolve \<in> set ?pre" by simp
    ultimately have "\<exists>pre. events eng b s = pre @ [CheckConvergence,
        GarbageCleanup (mesh_comm (f_function_space (problem_u (solver_problem s))))]
        \<and> SnesSolve \<in> set pre"
      by blast
    with a False show ?thesis by (simp add: solve_result)
  qed
qed

theorem C1_cleanup_iff_converged_witness:
  "stage engine_converging None solver_example
     = (Inr [5, 0], snd (stage engine_converging None solver_example))
   \<and> snes_solve engine_converging (snd (stage engine_converging None solver_example))
       = Inr ([2], 2)
   \<and> fst (solve engine_converging None solver_example) = Inr ()
   \<and> filter is_GarbageCleanup (events engine_converging None solver_example)
       = [GarbageCleanup 7]"
proof -
  have h: "stage engine_converging None solver_example
     = (Inr [5, 0], snd (stage engine_converging None solver_example))"
    by (rule stage_collapse [OF example_stage_converging])
  have g: "snes_solve engine_converging (snd (stage engine_converging None solver_example))
       = Inr ([2], 2)"
    by (simp add: engine_converging_def)
  have c: "mesh_comm (f_function_space (problem_u (solver_problem solver_example))) = 7"
    by (simp add: solve_defs example_defs)
  from C1_cleanup_iff_converged [of engine_converging None solver_example "[5, 0]"
      "snd (stage engine_converging None solver_example)" "[2]" 2] h g c
  show ?thesis by simp
qed

text \<open>
  C4: when the call reaches the engine's collective solve and the engine returns the
  last iterate \<open>w\<close> with a diverged reason \<open>r\<close>, \<^verbatim>\<open>solve\<close> fails with the convergence
  error carrying \<open>r\<close>, and the data of the unknown is then \<open>w\<close>, whatever it was before
  the call.
\<close>

theorem C4_divergence_keeps_last_iterate:
  assumes "stage eng b s = (Inr dms, s5)" and "snes_solve eng s5 = Inr (w, r)" and "r < 0"
  shows "fst (solve eng b s) = Inl (ConvergenceError r)
       \<and> kind (ConvergenceError r) = DivergenceKind
       \<and> u_dat (snd (solve eng b s)) = w"
  using assms by (simp add: solve_result solve_completed)

theorem C4_divergence_keeps_last_iterate_witness:
  "stage engine_diverging None solver_example
     = (Inr [5, 0], snd (stage engine_diverging None solver_example))
   \<and> snes_solve engine_diverging (snd (stage engine_diverging None solver_example))
       = Inr ([2], - 3)
   \<and> u_dat solver_example = [1]
   \<and> fst (solve engine_diverging None solver_example) = Inl (ConvergenceError (- 3))
   \<and> u_dat (snd (solve engine_diverging None solver_example)) = [2]"
proof -
  have h: "stage engine_diverging None solver_example
     = (Inr [5, 0], snd (stage engine_diverging None solver_example))"
    by (rule stage_collapse [OF example_stage_diverging])
  have g: "snes_solve engine_diverging (snd (stage engine_diverging None solver_example))
       = Inr ([2], - 3)"
    by (simp add: engine_diverging_def)
  have u: "u_dat solver_example = [1]"
    by (simp add: solve_defs step_defs example_defs)
  from C4_divergence_keeps_last_iterate [OF h g] h g u show ?thesis by simp
qed

text \<open>
  C10: when the engine's collective solve completes, the flag \<^verbatim>\<open>_setup\<close> is set
  after the copy back and before the convergence check, so it is set when the call
  ends, also when the call raises the convergence error. In any call whose events
  contain the copy back, the flag is set at the end.
\<close>

theorem C10_setup_flag_before_check:
  "(stage eng b s = (Inr dms, s5) \<and> snes_solve eng s5 = Inr (w, r) \<longrightarrow>
      setup_flag (snd (solve eng b s))
      \<and> (\<exists>pre post. events eng b s = pre @ [CopyBack, MarkSetup, CheckConvergence] @ post
            \<and> MarkSetup \<notin> set pre \<and> CheckConvergence \<notin> set pre)
      \<and> (r < 0 \<longrightarrow> fst (solve eng b s) = Inl (ConvergenceError r)))
   \<and> (CopyBack \<in> set (events eng b s) \<longrightarrow> setup_flag (snd (solve eng b s)))"
proof (intro conjI impI)
  assume a: "stage eng b s = (Inr dms, s5) \<and> snes_solve eng s5 = Inr (w, r)"
  with stage_InrD(1) [of eng b s dms s5] have pd: "problem_dms s = Inr dms" by simp
  from a show "setup_flag (snd (solve eng b s))" by (simp add: solve_completed)
  { assume "r < 0" with a show "fst (solve eng b s) = Inl (ConvergenceError r)"
      by (simp add: solve_result) }
  let ?pre = "[SetFunction (ctx s), SetJacobian (ctx s)] @
        map ApplyBC (dirichlet_bcs (solver_problem s)) @
        (case b of None \<Rightarrow> [] | Some (lo, up) \<Rightarrow>
          (case vec_ro lo of Inl _ \<Rightarrow> [] | Inr lb \<Rightarrow>
            (case vec_ro up of Inl _ \<Rightarrow> [] | Inr ub \<Rightarrow> [SetVariableBounds lb ub]))) @
        [CopyToWork, EnterOptions] @ map AttachDM dms @
        map EnterTransfer (transfer_operators s) @
        [SnesSolve] @ map ExitTransfer (rev (transfer_operators s)) @
        map DetachDM (rev dms) @ [ExitOptions]"
  let ?post = "if r < 0 then []
     else [GarbageCleanup (mesh_comm (f_function_space (problem_u (solver_problem s))))]"
  from a pd have "events eng b s = ?pre @ [CopyBack, MarkSetup, CheckConvergence] @ ?post"
    by (simp add: events_eq)
  moreover have "MarkSetup \<notin> set ?pre \<and> CheckConvergence \<notin> set ?pre"
    by (auto split: option.splits sum.splits)
  ultimately show "\<exists>pre post. events eng b s = pre @ [CopyBack, MarkSetup, CheckConvergence] @ post
            \<and> MarkSetup \<notin> set pre \<and> CheckConvergence \<notin> set pre"
    by blast
next
  assume c: "CopyBack \<in> set (events eng b s)"
  show "setup_flag (snd (solve eng b s))"
  proof (cases "stage eng b s")
    case (Pair res s5')
    show ?thesis
    proof (cases res)
      case (Inl e)
      with Pair c show ?thesis
        by (auto simp: events_eq split: sum.splits option.splits)
    next
      case (Inr dms')
      note st = Pair [unfolded Inr]
      show ?thesis
      proof (cases "snes_solve eng s5'")
        case (Inl e)
        with st c stage_InrD(1) [OF st] show ?thesis
          by (auto simp: events_eq split: sum.splits option.splits)
      next
        case (Inr wr)
        then obtain w' r' where "snes_solve eng s5' = Inr (w', r')" by (cases wr) auto
        with st show ?thesis by (simp add: solve_completed)
      qed
    qed
  qed
qed

theorem C10_setup_flag_before_check_witness:
  "stage engine_diverging None solver_example
     = (Inr [5, 0], snd (stage engine_diverging None solver_example))
   \<and> snes_solve engine_diverging (snd (stage engine_diverging None solver_example))
       = Inr ([2], - 3)
   \<and> \<not> setup_flag solver_example
   \<and> setup_flag (snd (solve engine_diverging None solver_example))
   \<and> fst (solve engine_diverging None solver_example) = Inl (ConvergenceError (- 3))"
proof -
  have h: "stage engine_diverging None solver_example
     = (Inr [5, 0], snd (stage engine_diverging None solver_example))"
    by (rule stage_collapse [OF example_stage_diverging])
  have g: "snes_solve engine_diverging (snd (stage engine_diverging None solver_example))
       = Inr ([2], - 3)"
    by (simp add: engine_diverging_def)
  have u: "\<not> setup_flag solver_example"
    by (simp add: solve_defs example_defs)
  from C10_setup_flag_before_check [of engine_diverging None solver_example "[5, 0]"
      "snd (stage engine_diverging None solver_example)" "[2]" "- 3"] h g u
  show ?thesis by simp
qed


lemma stage_unfold:
  assumes "problem_dms s = Inr dms"
  shows "stage eng b s =
     (case set_bounds eng b (apply_dirichlet_bcs eng (dirichlet_bcs (solver_problem s))
                               (set_jacobian (set_function s))) of
        (Inl e, s3) \<Rightarrow> (Inl e, s3)
      | (Inr _, s3) \<Rightarrow>
          (Inr dms, enter_contexts dms (emit [CopyToWork] (s3\<lparr>work := u_dat s3\<rparr>))))"
proof -
  have p1: "solver_problem (set_jacobian (set_function s)) = solver_problem s"
    by (simp add: step_defs)
  show ?thesis
    using assms by (simp add: stage_def Let_def problem_dms_rebind p1 split: prod.splits sum.splits)
qed



lemma form_coefficients_form:
  "isinstance_form X \<Longrightarrow> form_coefficients X = Inr (coefficients (form_of X))"
  by (cases X) simp_all

lemma chained_coefficients_forms:
  assumes "isinstance_form (problem_F p)" and "isinstance_form (problem_J p)"
      and "\<forall>P. problem_Jp p = Some P \<longrightarrow> isinstance_form P"
  shows "chained_coefficients p =
     Inr (coefficients (form_of (problem_F p)) @ coefficients (form_of (problem_J p)) @
          (case problem_Jp p of None \<Rightarrow> [] | Some P \<Rightarrow> coefficients (form_of P)))"
  using assms
  by (simp add: chained_coefficients_def form_coefficients_form split: option.splits)

lemma attach_events:
  "filter is_AttachDM (events eng b s) =
     (case fst (stage eng b s) of Inl e \<Rightarrow> [] | Inr dms \<Rightarrow> map AttachDM dms)"
proof (cases "stage eng b s")
  case (Pair res s5)
  show ?thesis
  proof (cases res)
    case (Inl e)
    with Pair show ?thesis
      by (simp add: events_eq filter_map comp_def split: sum.splits option.splits)
  next
    case (Inr dms)
    from stage_InrD(1) [OF Pair [unfolded Inr]] Pair Inr show ?thesis
      by (simp add: events_eq filter_map comp_def split: sum.splits option.splits prod.splits)
  qed
qed

lemma stage_context_fields:
  "snes_dm (snd (stage eng b s)) = snes_dm s"
  "f_function_space (problem_u (solver_problem (snd (stage eng b s))))
     = f_function_space (problem_u (solver_problem s))"
proof -
  let ?s1 = "set_jacobian (set_function s)"
  let ?s2 = "apply_dirichlet_bcs eng (dirichlet_bcs (solver_problem ?s1)) ?s1"
  have a: "snes_dm (snd (set_bounds eng b ?s2)) = snes_dm s"
    by (simp add: set_bounds_fields apply_dirichlet_bcs_fields) (simp add: step_defs)
  have b: "f_function_space (problem_u (solver_problem (snd (set_bounds eng b ?s2))))
             = f_function_space (problem_u (solver_problem s))"
    by (simp add: set_bounds_fields apply_dirichlet_bcs_comm) (simp add: step_defs)
  have c: "snes_dm ?s1 = snes_dm s"
     "f_function_space (problem_u (solver_problem ?s1))
        = f_function_space (problem_u (solver_problem s))"
    by (simp_all add: step_defs)
  show "snes_dm (snd (stage eng b s)) = snes_dm s"
    using a c(1)
    by (auto simp: stage_def Let_def enter_contexts_def emit_def split: sum.splits prod.splits)
  show "f_function_space (problem_u (solver_problem (snd (stage eng b s))))
     = f_function_space (problem_u (solver_problem s))"
    using b c(2)
    by (auto simp: stage_def Let_def enter_contexts_def emit_def split: sum.splits prod.splits)
qed

lemma solve_context_fields:
  "snes_dm (snd (solve eng b s)) = snes_dm s"
  "f_function_space (problem_u (solver_problem (snd (solve eng b s))))
     = f_function_space (problem_u (solver_problem s))"
  using stage_context_fields [of eng b s]
  by (auto simp: solve_def Let_def step_defs split: sum.splits prod.splits)

text \<open>
  C3 as stated fails: the deduplication is of function spaces, not of contexts. For a
  problem, constructed by \<^verbatim>\<open>__init__\<close>, whose residual has coefficients on two different
  function spaces with the same context 5, that context is attached twice.
\<close>

theorem C3_counterexample:
  "problem_init derivative_example residual_shared_dm (IsFunction u_example)
       None None None None False
     = Inr (problem_example\<lparr>problem_F := residual_shared_dm\<rparr>)
   \<and> filter is_AttachDM
        (events engine_converging None
           (solver_init 1 [0] (problem_example\<lparr>problem_F := residual_shared_dm\<rparr>)))
     = [AttachDM 5, AttachDM 5, AttachDM 0]"
  by (simp add: init_defs solve_defs step_defs example_defs Let_def)

text \<open>
  C3, amended. \<^verbatim>\<open>__init__\<close> makes the context of the engine the context of the function
  space of the unknown, and \<^verbatim>\<open>solve\<close> changes neither. On such a solver whose forms are
  forms, the contexts attached in a call are, in order: the contexts of the deduplicated
  function spaces of the deduplicated coefficients of \<^verbatim>\<open>F\<close>, \<^verbatim>\<open>J\<close> and \<^verbatim>\<open>Jp\<close> (when not
  \<^verbatim>\<open>None\<close>), leaving out every space whose context is that of the unknown, and then the
  context of the unknown, which is so attached last and exactly once, also when a
  coefficient lives on it. Without bounds the contexts are always attached; with bounds
  none is attached if the bounds step raises. The function spaces, not the contexts, are
  without repetition: the sequence of contexts is so when different function spaces have
  different contexts.
\<close>

theorem C3_solution_dm_attached_last:
  "snes_dm (solver_init c w p) = dm (f_function_space (problem_u p))
   \<and> snes_dm (snd (solve eng b s)) = snes_dm s
   \<and> f_function_space (problem_u (solver_problem (snd (solve eng b s))))
       = f_function_space (problem_u (solver_problem s))
   \<and> (snes_dm s = dm (f_function_space (problem_u (solver_problem s)))
      \<and> isinstance_form (problem_F (solver_problem s))
      \<and> isinstance_form (problem_J (solver_problem s))
      \<and> (\<forall>P. problem_Jp (solver_problem s) = Some P \<longrightarrow> isinstance_form P) \<longrightarrow>
      (let sol = dm (f_function_space (problem_u (solver_problem s)));
           cs = coefficients (form_of (problem_F (solver_problem s)))
                @ coefficients (form_of (problem_J (solver_problem s)))
                @ (case problem_Jp (solver_problem s) of
                     None \<Rightarrow> [] | Some P \<Rightarrow> coefficients (form_of P));
           Vs = filter (\<lambda>V. dm V \<noteq> sol) (unique (map c_function_space (unique cs)))
       in fst (stage eng None s) = Inr (map dm Vs @ [sol])
          \<and> filter is_AttachDM (events eng b s) =
              (case fst (stage eng b s) of
                 Inl e \<Rightarrow> [] | Inr dms \<Rightarrow> map AttachDM (map dm Vs @ [sol]))
          \<and> sol \<notin> set (map dm Vs)
          \<and> set (map dm Vs) = dm ` c_function_space ` set cs - {sol}
          \<and> distinct Vs
          \<and> (inj_on dm (c_function_space ` set cs) \<longrightarrow> distinct (map dm Vs @ [sol]))))"
proof (intro conjI impI)
  show "snes_dm (solver_init c w p) = dm (f_function_space (problem_u p))"
    by (simp add: solver_init_def)
  show "snes_dm (snd (solve eng b s)) = snes_dm s"
    by (rule solve_context_fields)
  show "f_function_space (problem_u (solver_problem (snd (solve eng b s))))
       = f_function_space (problem_u (solver_problem s))"
    by (rule solve_context_fields)
next
  assume a: "snes_dm s = dm (f_function_space (problem_u (solver_problem s)))
      \<and> isinstance_form (problem_F (solver_problem s))
      \<and> isinstance_form (problem_J (solver_problem s))
      \<and> (\<forall>P. problem_Jp (solver_problem s) = Some P \<longrightarrow> isinstance_form P)"
  define sol where "sol = dm (f_function_space (problem_u (solver_problem s)))"
  define cs where "cs = coefficients (form_of (problem_F (solver_problem s)))
                @ coefficients (form_of (problem_J (solver_problem s)))
                @ (case problem_Jp (solver_problem s) of
                     None \<Rightarrow> [] | Some P \<Rightarrow> coefficients (form_of P))"
  define Vs where "Vs = filter (\<lambda>V. dm V \<noteq> sol) (unique (map c_function_space (unique cs)))"
  from a have cc: "chained_coefficients (solver_problem s) = Inr cs"
    unfolding cs_def by (simp add: chained_coefficients_forms)
  with a have pd: "problem_dms s = Inr (map dm Vs @ [sol])"
    by (simp add: problem_dms_def Vs_def sol_def)
  have st0: "fst (stage eng None s) = Inr (map dm Vs @ [sol])"
    by (simp add: stage_unfold [OF pd] set_bounds_def)
  have at: "filter is_AttachDM (events eng b s) =
              (case fst (stage eng b s) of
                 Inl e \<Rightarrow> [] | Inr dms \<Rightarrow> map AttachDM (map dm Vs @ [sol]))"
  proof (cases "fst (stage eng b s)")
    case (Inl e)
    then show ?thesis by (simp add: attach_events)
  next
    case (Inr dms)
    then have "stage eng b s = (Inr dms, snd (stage eng b s))" by (rule stage_collapse)
    then have "problem_dms s = Inr dms" by (rule stage_InrD(1))
    with pd Inr show ?thesis by (simp add: attach_events)
  qed
  have n: "sol \<notin> set (map dm Vs)" by (auto simp: Vs_def)
  have se: "set (map dm Vs) = dm ` c_function_space ` set cs - {sol}"
    by (auto simp: Vs_def)
  have dV: "distinct Vs" by (simp add: Vs_def)
  have di: "distinct (map dm Vs @ [sol])" if inj: "inj_on dm (c_function_space ` set cs)"
  proof -
    have "inj_on dm (set Vs)"
      by (rule inj_on_subset [OF inj]) (auto simp: Vs_def)
    with dV have "distinct (map dm Vs)" by (simp add: distinct_map)
    with n show ?thesis by simp
  qed
  from st0 at n se dV di
  show "let sol = dm (f_function_space (problem_u (solver_problem s)));
           cs = coefficients (form_of (problem_F (solver_problem s)))
                @ coefficients (form_of (problem_J (solver_problem s)))
                @ (case problem_Jp (solver_problem s) of
                     None \<Rightarrow> [] | Some P \<Rightarrow> coefficients (form_of P));
           Vs = filter (\<lambda>V. dm V \<noteq> sol) (unique (map c_function_space (unique cs)))
       in fst (stage eng None s) = Inr (map dm Vs @ [sol])
          \<and> filter is_AttachDM (events eng b s) =
              (case fst (stage eng b s) of
                 Inl e \<Rightarrow> [] | Inr dms \<Rightarrow> map AttachDM (map dm Vs @ [sol]))
          \<and> sol \<notin> set (map dm Vs)
          \<and> set (map dm Vs) = dm ` c_function_space ` set cs - {sol}
          \<and> distinct Vs
          \<and> (inj_on dm (c_function_space ` set cs) \<longrightarrow> distinct (map dm Vs @ [sol]))"
    unfolding Let_def sol_def [symmetric] cs_def [symmetric] Vs_def [symmetric]
    by blast
qed

theorem C3_solution_dm_attached_last_witness:
  "snes_dm solver_three_forms = dm (f_function_space (problem_u (solver_problem solver_three_forms)))
   \<and> isinstance_form (problem_F (solver_problem solver_three_forms))
   \<and> isinstance_form (problem_J (solver_problem solver_three_forms))
   \<and> map_option isinstance_form (problem_Jp (solver_problem solver_three_forms)) = Some True
   \<and> dm (f_function_space (problem_u (solver_problem solver_three_forms))) = 0
   \<and> fst (stage engine_converging None solver_three_forms) = Inr [5, 6, 8, 0]
   \<and> filter is_AttachDM (events engine_converging None solver_three_forms)
       = [AttachDM 5, AttachDM 6, AttachDM 8, AttachDM 0]"
proof -
  have h: "snes_dm solver_three_forms
             = dm (f_function_space (problem_u (solver_problem solver_three_forms)))
   \<and> isinstance_form (problem_F (solver_problem solver_three_forms))
   \<and> isinstance_form (problem_J (solver_problem solver_three_forms))
   \<and> (\<forall>P. problem_Jp (solver_problem solver_three_forms) = Some P \<longrightarrow> isinstance_form P)"
    by (simp add: solve_defs example_defs)
  have v: "dm (f_function_space (problem_u (solver_problem solver_three_forms))) = 0
    \<and> coefficients (form_of (problem_F (solver_problem solver_three_forms)))
      @ coefficients (form_of (problem_J (solver_problem solver_three_forms)))
      @ (case problem_Jp (solver_problem solver_three_forms) of
           None \<Rightarrow> [] | Some P \<Rightarrow> coefficients (form_of P))
      = [\<lparr>c_id = 1, c_function_space = \<lparr>fs_id = 0, dm = 0, mesh_comm = 7\<rparr>\<rparr>,
         \<lparr>c_id = 2, c_function_space = \<lparr>fs_id = 1, dm = 5, mesh_comm = 7\<rparr>\<rparr>,
         \<lparr>c_id = 2, c_function_space = \<lparr>fs_id = 1, dm = 5, mesh_comm = 7\<rparr>\<rparr>,
         \<lparr>c_id = 3, c_function_space = \<lparr>fs_id = 2, dm = 6, mesh_comm = 7\<rparr>\<rparr>,
         \<lparr>c_id = 4, c_function_space = \<lparr>fs_id = 3, dm = 8, mesh_comm = 7\<rparr>\<rparr>,
         \<lparr>c_id = 1, c_function_space = \<lparr>fs_id = 0, dm = 0, mesh_comm = 7\<rparr>\<rparr>]"
    by (simp add: solve_defs example_defs)
  have j: "map_option isinstance_form (problem_Jp (solver_problem solver_three_forms)) = Some True"
    by (simp add: solve_defs example_defs)
  from C3_solution_dm_attached_last [of 1 "[0]" problem_three_forms engine_converging None
         solver_three_forms] h v j
  show ?thesis by (simp add: Let_def unique_def)
qed

end
